theory Spec2Isabelle
  imports Main "HOL-Library.Multiset"
begin

section \<open>Strings as Python uses them\<close>

text \<open>
  Python's \<open>s.startswith(p)\<close>, \<open>s.endswith(p)\<close> and \<open>p in s\<close> on strings, and the
  slice \<open>s[-n:]\<close>.
\<close>

definition startswith :: "string \<Rightarrow> string \<Rightarrow> bool" where
  "startswith s p = (take (length p) s = p)"

definition endswith :: "string \<Rightarrow> string \<Rightarrow> bool" where
  "endswith s p = (length p \<le> length s \<and> drop (length s - length p) s = p)"

fun contains :: "string \<Rightarrow> string \<Rightarrow> bool" where
  "contains [] p = (p = [])"
| "contains (c # cs) p = (startswith (c # cs) p \<or> contains cs p)"

definition slice_last :: "nat \<Rightarrow> string \<Rightarrow> string" where
  "slice_last n s = drop (length s - n) s"

section \<open>mask_credential\<close>

text \<open>
  The argument is \<open>None\<close> or a string. \<open>not value\<close> holds for \<open>None\<close> and for the
  empty string.
\<close>

definition mask_credential :: "string option \<Rightarrow> string" where
  "mask_credential v =
     (case v of
        None \<Rightarrow> ''***''
      | Some s \<Rightarrow>
          if s = [] \<or> length s < 8 then ''***''
          else take 4 s @ ''***'' @ slice_last 4 s)"

section \<open>validate_inputs\<close>

text \<open>
  The character classes of the two patterns: \<open>[a-zA-Z0-9]\<close>, \<open>[a-zA-Z0-9._-]\<close>,
  \<open>[a-z0-9]\<close> and \<open>[a-z0-9.-]\<close>.
\<close>

definition lower_digit :: "char \<Rightarrow> bool" where
  "lower_digit c = (c \<in> set ''abcdefghijklmnopqrstuvwxyz0123456789'')"

definition alnum :: "char \<Rightarrow> bool" where
  "alnum c = (lower_digit c \<or> c \<in> set ''ABCDEFGHIJKLMNOPQRSTUVWXYZ'')"

definition model_char :: "char \<Rightarrow> bool" where
  "model_char c = (alnum c \<or> c \<in> set ''._-'')"

definition bucket_char :: "char \<Rightarrow> bool" where
  "bucket_char c = (lower_digit c \<or> c \<in> set ''.-'')"

text \<open>
  \<open>re.match\<close> with a pattern \<open>^body$\<close>: \<open>$\<close> matches at the end of the string and also
  just before a newline that ends the string, so the body has to match the whole string or
  the string without its final newline.
\<close>

definition re_match_anchored :: "(string \<Rightarrow> bool) \<Rightarrow> string \<Rightarrow> bool" where
  "re_match_anchored body s =
     (body s \<or> (s \<noteq> [] \<and> last s = CHR 0x0A \<and> body (butlast s)))"

text \<open>One segment \<open>[a-zA-Z0-9][a-zA-Z0-9._-]*\<close> of the model pattern.\<close>

definition model_segment :: "string \<Rightarrow> bool" where
  "model_segment s = (case s of [] \<Rightarrow> False | c # cs \<Rightarrow> alnum c \<and> list_all model_char cs)"

text \<open>
  The body of \<open>model_pattern\<close>: a segment, then optionally \<open>/\<close> and a second segment. No
  segment character is \<open>/\<close>, so the first segment is the text before the first \<open>/\<close>.
\<close>

definition model_pattern :: "string \<Rightarrow> bool" where
  "model_pattern s =
     (let seg1 = takeWhile (\<lambda>c. c \<noteq> CHR ''/'') s;
          rest = dropWhile (\<lambda>c. c \<noteq> CHR ''/'') s
      in model_segment seg1 \<and> (rest = [] \<or> model_segment (tl rest)))"

text \<open>The body of \<open>bucket_pattern\<close>: \<open>[a-z0-9][a-z0-9.-]{1,61}[a-z0-9]\<close>.\<close>

definition bucket_pattern :: "string \<Rightarrow> bool" where
  "bucket_pattern s =
     (3 \<le> length s \<and> length s \<le> 63 \<and> lower_digit (hd s) \<and> lower_digit (last s)
      \<and> list_all bucket_char (butlast (tl s)))"

text \<open>The four \<open>ValueError\<close>s of \<open>validate_inputs\<close>, by the field and reason they name.\<close>

datatype value_error =
    Invalid_MODEL_NAME
  | Invalid_S3_BUCKET
  | Invalid_S3_PREFIX_traversal
  | Invalid_S3_PREFIX_absolute

definition validate_inputs :: "string \<Rightarrow> string \<Rightarrow> string \<Rightarrow> value_error + unit" where
  "validate_inputs model_name s3_bucket s3_prefix =
     (if \<not> re_match_anchored model_pattern model_name then Inl Invalid_MODEL_NAME
      else if \<not> re_match_anchored bucket_pattern s3_bucket then Inl Invalid_S3_BUCKET
      else if contains s3_prefix ''..'' then Inl Invalid_S3_PREFIX_traversal
      else if startswith s3_prefix ''/'' then Inl Invalid_S3_PREFIX_absolute
      else Inr ())"

section \<open>Exceptions and the object store client\<close>

text \<open>
  The exception classes the program names: \<open>ClientError\<close> (botocore), \<open>HfHubHTTPError\<close>,
  \<open>OSError\<close>, the \<open>RuntimeError\<close> that the download validation raises, and any other
  \<open>Exception\<close>.
\<close>

datatype exn = ClientError | HfHubHTTPError | OSError | RuntimeError | OtherException

text \<open>
  A listing response is a dictionary; the program only asks whether it has the key
  \<open>Contents\<close>. The client offers the two calls the program makes: \<open>list_objects_v2\<close>
  (bucket, prefix, MaxKeys) and \<open>upload_file\<close> (local path, bucket, key), which returns
  nothing or raises.
\<close>

type_synonym response = "string \<rightharpoonup> string list"

record s3_client =
  list_objects_v2 :: "string \<Rightarrow> string \<Rightarrow> nat \<Rightarrow> exn + response"
  upload_file :: "string \<Rightarrow> string \<Rightarrow> string \<Rightarrow> exn option"

text \<open>
  The listing call of an S3-compatible store holding, for each bucket that exists, the list
  of its keys: a missing bucket is a \<open>ClientError\<close>; otherwise the response lists at most
  MaxKeys of the keys that start with the prefix, under \<open>Contents\<close>, and has no
  \<open>Contents\<close> entry when there is none.
\<close>

type_synonym object_store = "string \<rightharpoonup> string list"

definition store_list_objects_v2 ::
  "object_store \<Rightarrow> string \<Rightarrow> string \<Rightarrow> nat \<Rightarrow> exn + response" where
  "store_list_objects_v2 store bucket prefix max_keys =
     (case store bucket of
        None \<Rightarrow> Inl ClientError
      | Some keys \<Rightarrow>
          (let found = take max_keys (filter (\<lambda>k. startswith k prefix) keys)
           in Inr (if found = [] then Map.empty else [''Contents'' \<mapsto> found])))"

section \<open>model_exists_in_s3\<close>

text \<open>
  The handler for \<open>ClientError\<close> logs and re-raises; any other exception of the listing
  call is not handled here and propagates as well.
\<close>

definition model_exists_in_s3 :: "s3_client \<Rightarrow> string \<Rightarrow> string \<Rightarrow> exn + bool" where
  "model_exists_in_s3 client bucket prefix =
     (case list_objects_v2 client bucket prefix 1 of
        Inl e \<Rightarrow> Inl e
      | Inr response \<Rightarrow> Inr (response ''Contents'' \<noteq> None))"

section \<open>download_model_from_hf\<close>

text \<open>
  \<open>snapshot_download\<close> (repo id, local directory, token) returns a path or raises. The
  function checks that the returned path exists and returns it; the file counts and sizes
  it computes afterwards are only logged.
\<close>

definition download_model_from_hf ::
  "(string \<Rightarrow> string \<Rightarrow> string option \<Rightarrow> exn + string) \<Rightarrow> (string \<Rightarrow> bool)
     \<Rightarrow> string \<Rightarrow> string \<Rightarrow> string option \<Rightarrow> exn + string" where
  "download_model_from_hf snapshot_download path_exists model_name download_dir hf_token =
     (case snapshot_download model_name download_dir hf_token of
        Inl e \<Rightarrow> Inl e
      | Inr download_path \<Rightarrow>
          if \<not> path_exists download_path then Inl RuntimeError
          else Inr download_path)"

section \<open>POSIX paths and the directory walk\<close>

text \<open>\<open>os.path.join\<close> of two paths and \<open>str.split\<close> at the separator.\<close>

definition path_join :: "string \<Rightarrow> string \<Rightarrow> string" where
  "path_join a b =
     (if startswith b ''/'' then b
      else if a = [] \<or> endswith a ''/'' then a @ b
      else a @ ''/'' @ b)"

fun split_sep :: "string \<Rightarrow> string list" where
  "split_sep [] = [[]]"
| "split_sep (c # cs) =
     (if c = CHR ''/'' then [] # split_sep cs
      else (case split_sep cs of [] \<Rightarrow> [[c]] | x # xs \<Rightarrow> (c # x) # xs))"

text \<open>
  One round of the loop of \<open>os.path.normpath\<close> on an absolute path (what \<open>abspath\<close>
  hands it, the working directory being absolute): empty and \<open>.\<close> components are skipped,
  \<open>..\<close> removes the component before it.
\<close>

definition norm_step :: "string list \<Rightarrow> string \<Rightarrow> string list" where
  "norm_step new_comps part =
     (if part = [] \<or> part = ''.'' then new_comps
      else if part \<noteq> ''..'' \<or> (new_comps \<noteq> [] \<and> last new_comps = ''..'')
        then new_comps @ [part]
      else if new_comps \<noteq> [] then butlast new_comps
      else new_comps)"

text \<open>The components of \<open>os.path.abspath(path)\<close> in working directory \<open>cwd\<close>.\<close>

definition abs_comps :: "string \<Rightarrow> string \<Rightarrow> string list" where
  "abs_comps cwd path = foldl norm_step [] (split_sep (path_join cwd path))"

fun common_prefix :: "string list \<Rightarrow> string list \<Rightarrow> string list" where
  "common_prefix (x # xs) (y # ys) = (if x = y then x # common_prefix xs ys else [])"
| "common_prefix _ _ = []"

text \<open>
  \<open>os.path.relpath(path, start)\<close>. It raises only for an empty \<open>path\<close>; the program
  passes the join of a directory and a file name that \<open>os.walk\<close> listed.
\<close>

definition relpath :: "string \<Rightarrow> string \<Rightarrow> string \<Rightarrow> string" where
  "relpath cwd path start =
     (let start_list = abs_comps cwd start;
          path_list = abs_comps cwd path;
          i = length (common_prefix start_list path_list);
          rel_list = replicate (length start_list - i) ''..'' @ drop i path_list
      in if rel_list = [] then ''.'' else foldl path_join (hd rel_list) (tl rel_list))"

text \<open>
  A directory as \<open>os.walk\<close> sees it: the names of its files and its named
  subdirectories. The walk is top-down and yields \<open>(root, dirs, files)\<close> for every
  directory.
\<close>

datatype dir = Dir (files: "string list") (subdirs: "(string \<times> dir) list")

fun os_walk :: "string \<Rightarrow> dir \<Rightarrow> (string \<times> string list \<times> string list) list" where
  "os_walk root (Dir fs ds) =
     (root, map fst ds, fs) # concat (map (\<lambda>(name, d). os_walk (path_join root name) d) ds)"

section \<open>upload_directory_to_s3\<close>

text \<open>
  What the function reads from the machine it runs on: the working directory, the tree
  that \<open>os.walk\<close> finds at a path (\<open>None\<close> when there is no directory to walk, which
  yields nothing), \<open>os.path.getsize\<close>, and the order in which \<open>as_completed\<close> hands
  back the submitted uploads.
\<close>

type_synonym upload_task = "string \<times> string \<times> string"

record host =
  cwd :: string
  tree_at :: "string \<Rightarrow> dir option"
  getsize :: "string \<Rightarrow> exn + nat"
  as_completed :: "upload_task list \<Rightarrow> upload_task list"

definition normalize_prefix :: "string \<Rightarrow> string" where
  "normalize_prefix s3_prefix = (if \<not> endswith s3_prefix ''/'' then s3_prefix @ ''/'' else s3_prefix)"

text \<open>
  The collection loop: one \<open>(local_file_path, s3_key, relative_path)\<close> for every file of
  every directory of the walk. \<open>s3_prefix\<close> is the prefix already normalised.
\<close>

definition files_to_upload :: "host \<Rightarrow> string \<Rightarrow> string \<Rightarrow> upload_task list" where
  "files_to_upload h local_dir s3_prefix =
     concat (map (\<lambda>(root, dirs, fs).
         map (\<lambda>file.
               (let local_file_path = path_join root file;
                    relative_path = relpath (cwd h) local_file_path local_dir;
                    s3_key = s3_prefix @ relative_path
                in (local_file_path, s3_key, relative_path))) fs)
       (case tree_at h local_dir of None \<Rightarrow> [] | Some t \<Rightarrow> os_walk local_dir t))"

text \<open>
  A call of the client's \<open>upload_file\<close>: what it answers, and the call as the client
  receives it (local path, bucket, key).
\<close>

type_synonym upload_call = "string \<times> string \<times> string"

definition client_upload_file ::
  "s3_client \<Rightarrow> string \<Rightarrow> string \<Rightarrow> string \<Rightarrow> exn option \<times> upload_call" where
  "client_upload_file client local_file_path bucket key =
     (upload_file client local_file_path bucket key, (local_file_path, bucket, key))"

text \<open>
  \<open>upload_file_to_s3\<close>: its result (the size of the file, or what was raised), and the
  calls it made on the client. The size is read after the upload.
\<close>

definition upload_file_to_s3 ::
  "s3_client \<Rightarrow> host \<Rightarrow> string \<Rightarrow> string \<Rightarrow> string
     \<Rightarrow> (exn + nat) \<times> upload_call list" where
  "upload_file_to_s3 client h local_file_path bucket s3_key =
     (case client_upload_file client local_file_path bucket s3_key of
        (Some e, call) \<Rightarrow> (Inl e, [call])
      | (None, call) \<Rightarrow> (getsize h local_file_path, [call]))"

text \<open>
  The loop over the completed uploads: a result adds to the totals, the first failure is
  logged and raised again.
\<close>

fun collect_results ::
  "(upload_task \<Rightarrow> exn + nat) \<Rightarrow> upload_task list \<Rightarrow> nat \<Rightarrow> nat \<Rightarrow> exn + nat \<times> nat" where
  "collect_results run [] total_size file_count = Inr (file_count, total_size)"
| "collect_results run (t # ts) total_size file_count =
     (case run t of
        Inl e \<Rightarrow> Inl e
      | Inr file_size \<Rightarrow> collect_results run ts (total_size + file_size) (file_count + 1))"

text \<open>
  The function returns nothing; what it reports is the warning that there was no file, or
  the count and total size of the completed uploads.
\<close>

datatype upload_outcome = No_files_to_upload | Upload_complete nat nat

text \<open>
  The result, and the calls made on the client. Every task is submitted as a call of
  \<open>upload_file_to_s3\<close>; the executor runs every submitted task, and leaving its block
  waits for them, also when the loop has raised: the calls on the client are those of all
  the tasks. \<open>future.result()\<close> is the result of the task's call. The worker count is the
  default one, as \<open>main\<close> calls it.
\<close>

definition upload_directory_to_s3 ::
  "s3_client \<Rightarrow> host \<Rightarrow> string \<Rightarrow> string \<Rightarrow> string
     \<Rightarrow> (exn + upload_outcome) \<times> upload_call list" where
  "upload_directory_to_s3 client h local_dir bucket s3_prefix =
     (let tasks = files_to_upload h local_dir (normalize_prefix s3_prefix)
      in if tasks = [] then (Inr No_files_to_upload, [])
         else
           (let run = (\<lambda>(local_file_path, s3_key, relative_path).
                          upload_file_to_s3 client h local_file_path bucket s3_key);
                calls = concat (map (\<lambda>t. snd (run t)) tasks)
            in (case collect_results (\<lambda>t. fst (run t)) (as_completed h tasks) 0 0 of
                  Inl e \<Rightarrow> (Inl e, calls)
                | Inr (file_count, total_size) \<Rightarrow>
                    (Inr (Upload_complete file_count total_size), calls))))"

section \<open>cleanup_local_files\<close>

text \<open>
  \<open>shutil.rmtree\<close> reports a failure as an \<open>OSError\<close>. The result of the cleanup is
  paired with whether \<open>rmtree\<close> was called.
\<close>

definition shutil_rmtree :: "(string \<Rightarrow> bool) \<Rightarrow> string \<Rightarrow> exn + unit" where
  "shutil_rmtree rmtree_fails directory = (if rmtree_fails directory then Inl OSError else Inr ())"

definition cleanup_local_files ::
  "(string \<Rightarrow> bool) \<Rightarrow> (string \<Rightarrow> bool) \<Rightarrow> string \<Rightarrow> (exn + unit) \<times> bool" where
  "cleanup_local_files path_exists rmtree_fails directory =
     (if path_exists directory then
        (case shutil_rmtree rmtree_fails directory of
           Inr u \<Rightarrow> (Inr (), True)
         | Inl e \<Rightarrow> if e = OSError then (Inr (), True) else (Inl e, True))
      else (Inr (), False))"

section \<open>validate_environment\<close>

record config =
  model_name :: string
  s3_bucket :: string
  s3_endpoint_url :: string
  aws_access_key_id :: string
  aws_secret_access_key :: string
  s3_prefix :: string
  hf_token :: "string option"
  download_dir :: string

text \<open>\<open>not x\<close> for the result of \<open>os.environ.get\<close>: unset or empty.\<close>

definition unset :: "string option \<Rightarrow> bool" where
  "unset v = (case v of None \<Rightarrow> True | Some s \<Rightarrow> s = [])"

text \<open>The result is the configuration, or the status that \<open>sys.exit\<close> was called with.\<close>

definition validate_environment :: "(string \<rightharpoonup> string) \<Rightarrow> int + config" where
  "validate_environment environ =
     (if unset (environ ''MODEL_NAME'') then Inl 1
      else if unset (environ ''S3_BUCKET'') then Inl 1
      else if unset (environ ''S3_ENDPOINT_URL'') then Inl 1
      else if unset (environ ''AWS_ACCESS_KEY_ID'') then Inl 1
      else if unset (environ ''AWS_SECRET_ACCESS_KEY'') then Inl 1
      else
        (let cfg = \<lparr> model_name = the (environ ''MODEL_NAME''),
                     s3_bucket = the (environ ''S3_BUCKET''),
                     s3_endpoint_url = the (environ ''S3_ENDPOINT_URL''),
                     aws_access_key_id = the (environ ''AWS_ACCESS_KEY_ID''),
                     aws_secret_access_key = the (environ ''AWS_SECRET_ACCESS_KEY''),
                     s3_prefix = (case environ ''S3_PREFIX'' of None \<Rightarrow> ''models/'' | Some p \<Rightarrow> p),
                     hf_token = environ ''HF_TOKEN'',
                     download_dir = (case environ ''DOWNLOAD_DIR'' of None \<Rightarrow> ''/tmp'' | Some d \<Rightarrow> d) \<rparr>
         in (case validate_inputs (model_name cfg) (s3_bucket cfg) (s3_prefix cfg) of
               Inl e \<Rightarrow> Inl 1
             | Inr u \<Rightarrow> Inr cfg)))"

section \<open>main\<close>

text \<open>
  Everything outside the program that one run meets: the environment variables, the
  construction of the client, \<open>tempfile.mkdtemp\<close> (prefix, parent directory),
  \<open>snapshot_download\<close>, \<open>os.path.exists\<close> as the download validation sees it, the host
  as the upload sees it, and \<open>os.path.exists\<close> and \<open>shutil.rmtree\<close> as they answer when
  the run ends.
\<close>

record world =
  environ :: "string \<rightharpoonup> string"
  boto3_client :: "string \<Rightarrow> string \<Rightarrow> string \<Rightarrow> exn + s3_client"
  mkdtemp :: "string \<Rightarrow> string \<Rightarrow> exn + string"
  snapshot_download :: "string \<Rightarrow> string \<Rightarrow> string option \<Rightarrow> exn + string"
  exists_after_download :: "string \<Rightarrow> bool"
  upload_host :: host
  exists_at_exit :: "string \<Rightarrow> bool"
  rmtree_fails :: "string \<Rightarrow> bool"

definition create_s3_client ::
  "world \<Rightarrow> string \<Rightarrow> string \<Rightarrow> string \<Rightarrow> exn + s3_client" where
  "create_s3_client w endpoint_url access_key secret_key =
     boto3_client w endpoint_url access_key secret_key"

text \<open>Step 3 of \<open>main\<close>: the full prefix under which the model's objects are keyed.\<close>

definition full_s3_prefix :: "config \<Rightarrow> string" where
  "full_s3_prefix cfg =
     (let p = s3_prefix cfg;
          p = (if p \<noteq> [] \<and> \<not> endswith p ''/'' then p @ ''/'' else p)
      in p @ model_name cfg @ ''/'')"

text \<open>
  What a run does that the claims speak of, in order: the existence check, the creation of
  the download directory, the fetch, the upload calls, and the call of the cleanup.
\<close>

datatype event =
    Exists_check string string
  | Created_dir string
  | Fetch string string
  | Upload_call string string string
  | Cleanup_call string

text \<open>How the \<open>try\<close> block ends: an exception, or \<open>sys.exit\<close> with a status.\<close>

datatype signal = Raised exn | Sys_exit int

text \<open>
  The \<open>try\<close> block: how it ends, the value of the variable \<open>download_dir\<close> at that
  moment, and the events so far.
\<close>

definition main_try :: "world \<Rightarrow> signal \<times> string option \<times> event list" where
  "main_try w =
     (case validate_environment (environ w) of
        Inl status \<Rightarrow> (Sys_exit status, None, [])
      | Inr cfg \<Rightarrow>
     (case create_s3_client w (s3_endpoint_url cfg) (aws_access_key_id cfg)
             (aws_secret_access_key cfg) of
        Inl e \<Rightarrow> (Raised e, None, [])
      | Inr client \<Rightarrow>
     (let full = full_s3_prefix cfg;
          ev1 = [Exists_check (s3_bucket cfg) full]
      in
     (case model_exists_in_s3 client (s3_bucket cfg) full of
        Inl e \<Rightarrow> (Raised e, None, ev1)
      | Inr True \<Rightarrow> (Sys_exit 0, None, ev1)
      | Inr False \<Rightarrow>
     (case mkdtemp w ''hf_model_'' (download_dir cfg) of
        Inl e \<Rightarrow> (Raised e, None, ev1)
      | Inr d \<Rightarrow>
     (let ev2 = ev1 @ [Created_dir d, Fetch (model_name cfg) d]
      in
     (case download_model_from_hf (snapshot_download w) (exists_after_download w)
             (model_name cfg) d (hf_token cfg) of
        Inl e \<Rightarrow> (Raised e, Some d, ev2)
      | Inr download_path \<Rightarrow>
     (case upload_directory_to_s3 client (upload_host w) d (s3_bucket cfg) full of
        (res, calls) \<Rightarrow>
          (let ev3 = ev2 @ map (\<lambda>(l, b, k). Upload_call l b k) calls
           in (case res of
                 Inl e \<Rightarrow> (Raised e, Some d, ev3)
               | Inr outcome \<Rightarrow> (Sys_exit 0, Some d, ev3)))))))))))"

text \<open>
  The \<open>except\<close> clauses: each of the four handlers ends in \<open>sys.exit(1)\<close>;
  \<open>SystemExit\<close> is no \<open>Exception\<close> and passes them.
\<close>

definition handle :: "signal \<Rightarrow> int" where
  "handle s =
     (case s of
        Sys_exit status \<Rightarrow> status
      | Raised e \<Rightarrow>
          if e = ClientError then 1
          else if e = HfHubHTTPError then 1
          else if e = OSError then 1
          else 1)"

record run =
  exit_status :: int
  trace :: "event list"

text \<open>
  \<open>main\<close>: the \<open>try\<close> block, the handlers, then the \<open>finally\<close> block. An exception
  leaving the \<open>finally\<close> block would replace the pending \<open>SystemExit\<close> and end the
  process with status 1.
\<close>

definition main :: "world \<Rightarrow> run" where
  "main w =
     (case main_try w of
        (s, dir_var, evs) \<Rightarrow>
          (let status = handle s
           in (case dir_var of
                 None \<Rightarrow> \<lparr> exit_status = status, trace = evs \<rparr>
               | Some d \<Rightarrow>
                   if d \<noteq> [] \<and> exists_at_exit w d then
                     (case cleanup_local_files (exists_at_exit w) (rmtree_fails w) d of
                        (Inr u, called) \<Rightarrow>
                          \<lparr> exit_status = status, trace = evs @ [Cleanup_call d] \<rparr>
                      | (Inl e, called) \<Rightarrow>
                          \<lparr> exit_status = 1, trace = evs @ [Cleanup_call d] \<rparr>)
                   else \<lparr> exit_status = status, trace = evs \<rparr>)))"

section \<open>The storage layout as the specification words it\<close>






section \<open>A concrete run\<close>

text \<open>
  The setting of the repository's integration tests: model \<open>gpt2\<close>, bucket
  \<open>test-bucket\<close>, prefix \<open>models/\<close> by default, a store given by its buckets and keys, and
  a downloaded tree with \<open>c.txt\<close> and \<open>a/b.txt\<close>.
\<close>

definition example_environ :: "string \<rightharpoonup> string" where
  "example_environ =
     [''MODEL_NAME'' \<mapsto> ''gpt2'',
      ''S3_BUCKET'' \<mapsto> ''test-bucket'',
      ''S3_ENDPOINT_URL'' \<mapsto> ''https://objectstore.example.com'',
      ''AWS_ACCESS_KEY_ID'' \<mapsto> ''AKIATEST1234567890AB'',
      ''AWS_SECRET_ACCESS_KEY'' \<mapsto> ''secretkey1234567890abcdefghijklmnopqrstuvwxyz'']"

definition example_config :: config where
  "example_config =
     \<lparr> model_name = ''gpt2'',
       s3_bucket = ''test-bucket'',
       s3_endpoint_url = ''https://objectstore.example.com'',
       aws_access_key_id = ''AKIATEST1234567890AB'',
       aws_secret_access_key = ''secretkey1234567890abcdefghijklmnopqrstuvwxyz'',
       s3_prefix = ''models/'',
       hf_token = None,
       download_dir = ''/tmp'' \<rparr>"

definition example_client :: "object_store \<Rightarrow> (string \<Rightarrow> bool) \<Rightarrow> s3_client" where
  "example_client store key_fails =
     \<lparr> list_objects_v2 = store_list_objects_v2 store,
       upload_file = (\<lambda>local_file_path bucket key.
                        if key_fails key then Some ClientError else None) \<rparr>"

text \<open>
  A client that cannot reach the store: every call raises the given exception, such as
  botocore's \<open>EndpointConnectionError\<close>, which is no \<open>ClientError\<close>.
\<close>

definition failing_client :: "exn \<Rightarrow> s3_client" where
  "failing_client e =
     \<lparr> list_objects_v2 = (\<lambda>bucket prefix max_keys. Inl e),
       upload_file = (\<lambda>local_file_path bucket key. Some e) \<rparr>"

definition example_tree :: dir where
  "example_tree = Dir [''c.txt''] [(''a'', Dir [''b.txt''] [])]"

definition example_host :: "string \<Rightarrow> dir \<Rightarrow> host" where
  "example_host local_dir t =
     \<lparr> cwd = ''/'',
       tree_at = (\<lambda>p. if p = local_dir then Some t else None),
       getsize = (\<lambda>p. Inr 7),
       as_completed = rev \<rparr>"

definition example_world :: "object_store \<Rightarrow> (string \<Rightarrow> bool) \<Rightarrow> bool \<Rightarrow> world" where
  "example_world store key_fails dir_remains =
     \<lparr> environ = example_environ,
       boto3_client = (\<lambda>endpoint_url access_key secret_key. Inr (example_client store key_fails)),
       mkdtemp = (\<lambda>prefix parent. Inr (parent @ ''/'' @ prefix @ ''x1'')),
       snapshot_download = (\<lambda>repo_id local_dir token. Inr local_dir),
       exists_after_download = (\<lambda>p. True),
       upload_host = example_host ''/tmp/hf_model_x1'' example_tree,
       exists_at_exit = (\<lambda>p. dir_remains),
       rmtree_fails = (\<lambda>p. False) \<rparr>"

section \<open>Facts about the string operations\<close>

lemma startswith_Nil: "startswith s [] = True"
  by (simp add: startswith_def)

lemma endswith_append_slash: "endswith (s @ ''/'') ''/''"
  by (simp add: endswith_def)



section \<open>Credential masking\<close>

text \<open>
  C8. \<open>mask_credential\<close> returns the first four characters, \<open>***\<close> and the last four
  characters of an input of length at least 8, and \<open>***\<close> for an input shorter than 8, for
  the empty string and for \<open>None\<close>; the two examples of the specification evaluate as it
  says.
\<close>

theorem mask_credential_spec:
  "(8 \<le> length s \<longrightarrow> mask_credential (Some s) = take 4 s @ ''***'' @ rev (take 4 (rev s)))
   \<and> (length t < 8 \<longrightarrow> mask_credential (Some t) = ''***'')
   \<and> mask_credential (Some []) = ''***''
   \<and> mask_credential None = ''***''
   \<and> mask_credential (Some ''AKIATEST1234567890AB'') = ''AKIA***90AB''
   \<and> mask_credential (Some ''short'') = ''***''"
proof -
  have long: "8 \<le> length s \<longrightarrow>
      mask_credential (Some s) = take 4 s @ ''***'' @ rev (take 4 (rev s))"
  proof
    assume len: "8 \<le> length s"
    then have "s \<noteq> []" by auto
    moreover have "rev (take 4 (rev s)) = drop (length s - 4) s"
      by (simp add: rev_take)
    ultimately show "mask_credential (Some s) = take 4 s @ ''***'' @ rev (take 4 (rev s))"
      using len by (simp add: mask_credential_def slice_last_def)
  qed
  have short: "length t < 8 \<longrightarrow> mask_credential (Some t) = ''***''"
    by (simp add: mask_credential_def)
  have ex: "mask_credential (Some ''AKIATEST1234567890AB'') = ''AKIA***90AB''"
    by (simp add: mask_credential_def slice_last_def)
  show ?thesis using long short ex by (simp add: mask_credential_def)
qed

theorem mask_credential_spec_witness:
  "8 \<le> length ''secretkey1234567890abcdefghijklmnopqrstuvwxyz''
   \<and> mask_credential (Some ''secretkey1234567890abcdefghijklmnopqrstuvwxyz'') = ''secr***wxyz''
   \<and> length ''abc'' < 8 \<and> mask_credential (Some ''abc'') = ''***''"
  using mask_credential_spec [of "''secretkey1234567890abcdefghijklmnopqrstuvwxyz''" "''abc''"]
  by simp

section \<open>Input validation\<close>

lemma gpt2_matches: "re_match_anchored model_pattern ''gpt2''"
  by (simp add: re_match_anchored_def model_pattern_def model_segment_def alnum_def
      lower_digit_def model_char_def)

lemma test_bucket_matches: "re_match_anchored bucket_pattern ''test-bucket''"
  by (simp add: re_match_anchored_def bucket_pattern_def lower_digit_def bucket_char_def)

text \<open>
  C4, as the claim states it, fails: the string \<open>a..b\<close> contains \<open>..\<close>, and
  \<open>validate_inputs\<close> accepts it as the model name and as the bucket, since both patterns
  allow a dot after the first character.
\<close>

theorem dotdot_accepted_counterexample:
  "contains ''a..b'' ''..''
   \<and> validate_inputs ''a..b'' ''test-bucket'' ''models/'' = Inr ()
   \<and> validate_inputs ''gpt2'' ''a..b'' ''models/'' = Inr ()"
  by (simp add: validate_inputs_def re_match_anchored_def model_pattern_def model_segment_def
      bucket_pattern_def alnum_def lower_digit_def model_char_def bucket_char_def
      startswith_def)

text \<open>
  C4, amended. For every prefix that contains \<open>..\<close>, \<open>validate_inputs\<close> fails, whatever
  the model name and the bucket are; when those two match their patterns, the failure is
  the one that names the prefix and the path traversal.
\<close>

theorem prefix_dotdot_rejected:
  "contains p ''..'' \<Longrightarrow>
     validate_inputs m b p \<noteq> Inr ()
     \<and> (re_match_anchored model_pattern m \<and> re_match_anchored bucket_pattern b
          \<longrightarrow> validate_inputs m b p = Inl Invalid_S3_PREFIX_traversal)"
  by (simp add: validate_inputs_def)

theorem prefix_dotdot_rejected_witness:
  "contains ''models/../other/'' ''..''
   \<and> re_match_anchored model_pattern ''gpt2'' \<and> re_match_anchored bucket_pattern ''test-bucket''
   \<and> validate_inputs ''gpt2'' ''test-bucket'' ''models/../other/'' = Inl Invalid_S3_PREFIX_traversal"
proof -
  have c: "contains ''models/../other/'' ''..''"
    by (simp add: startswith_def)
  show ?thesis
    using prefix_dotdot_rejected [OF c, of "''gpt2''" "''test-bucket''"] c gpt2_matches
      test_bucket_matches
    by simp
qed

text \<open>
  C10. \<open>validate_inputs\<close> rejects a prefix only for containing \<open>..\<close> or for starting with
  \<open>/\<close>, so it accepts the empty prefix; the full prefix that \<open>main\<close> derives is the
  prefix, with \<open>/\<close> appended only when it is not empty and lacks one, then the model name,
  then \<open>/\<close>; it always ends with \<open>/\<close>, and with an empty prefix it is the model name
  followed by \<open>/\<close>.
\<close>

theorem full_s3_prefix_spec:
  "(validate_inputs m b p = Inr () \<longleftrightarrow>
      re_match_anchored model_pattern m \<and> re_match_anchored bucket_pattern b
      \<and> \<not> contains p ''..'' \<and> \<not> startswith p ''/'')
   \<and> (validate_inputs m b [] = Inr () \<longleftrightarrow>
      re_match_anchored model_pattern m \<and> re_match_anchored bucket_pattern b)
   \<and> full_s3_prefix cfg =
       (if s3_prefix cfg \<noteq> [] \<and> \<not> endswith (s3_prefix cfg) ''/''
        then s3_prefix cfg @ ''/'' else s3_prefix cfg) @ model_name cfg @ ''/''
   \<and> endswith (full_s3_prefix cfg) ''/''
   \<and> (s3_prefix cfg = [] \<longrightarrow> full_s3_prefix cfg = model_name cfg @ ''/'')"
proof -
  have v: "validate_inputs m b q = Inr () \<longleftrightarrow>
      re_match_anchored model_pattern m \<and> re_match_anchored bucket_pattern b
      \<and> \<not> contains q ''..'' \<and> \<not> startswith q ''/''" for q
    by (simp add: validate_inputs_def)
  have e: "validate_inputs m b [] = Inr () \<longleftrightarrow>
      re_match_anchored model_pattern m \<and> re_match_anchored bucket_pattern b"
    by (simp add: v startswith_def)
  have f: "full_s3_prefix cfg =
       (if s3_prefix cfg \<noteq> [] \<and> \<not> endswith (s3_prefix cfg) ''/''
        then s3_prefix cfg @ ''/'' else s3_prefix cfg) @ model_name cfg @ ''/''"
    by (simp add: full_s3_prefix_def Let_def)
  have s: "endswith (full_s3_prefix cfg) ''/''"
    using endswith_append_slash [of "(if s3_prefix cfg \<noteq> [] \<and> \<not> endswith (s3_prefix cfg) ''/''
        then s3_prefix cfg @ ''/'' else s3_prefix cfg) @ model_name cfg"]
    by (simp add: f)
  have n: "s3_prefix cfg = [] \<longrightarrow> full_s3_prefix cfg = model_name cfg @ ''/''"
    by (simp add: f)
  show ?thesis using v e f s n by blast
qed

theorem full_s3_prefix_spec_witness:
  "validate_inputs ''gpt2'' ''test-bucket'' [] = Inr ()
   \<and> s3_prefix (example_config\<lparr>s3_prefix := []\<rparr>) = []
   \<and> full_s3_prefix (example_config\<lparr>s3_prefix := []\<rparr>) = ''gpt2/''
   \<and> endswith (full_s3_prefix (example_config\<lparr>s3_prefix := []\<rparr>)) ''/''"
  using full_s3_prefix_spec [of "''gpt2''" "''test-bucket''" "[]" "example_config\<lparr>s3_prefix := []\<rparr>"]
    gpt2_matches test_bucket_matches
  by (simp add: example_config_def endswith_def startswith_def)

section \<open>The existence check\<close>

lemma store_listing_contents:
  "store_list_objects_v2 st b p (Suc 0) = Inr r \<Longrightarrow> st b = Some keys \<Longrightarrow>
     (r ''Contents'' \<noteq> None) = (\<exists>k \<in> set keys. startswith k p)"
  by (auto simp add: store_list_objects_v2_def Let_def filter_empty_conv take_Suc
      split: if_splits list.splits)

text \<open>
  C6, as the claim states it, fails: the handler is for \<open>ClientError\<close> alone, and a
  listing that fails with an exception of another class, as a client that cannot reach the
  store does, makes \<open>model_exists_in_s3\<close> raise that exception, not a \<open>ClientError\<close>.
\<close>

theorem listing_failure_class_counterexample:
  "list_objects_v2 (failing_client OtherException) ''test-bucket'' ''models/gpt2/'' 1
      = Inl OtherException
   \<and> model_exists_in_s3 (failing_client OtherException) ''test-bucket'' ''models/gpt2/''
      = Inl OtherException
   \<and> model_exists_in_s3 (failing_client OtherException) ''test-bucket'' ''models/gpt2/''
      \<noteq> Inl ClientError"
  by (simp add: model_exists_in_s3_def failing_client_def)

text \<open>
  C6, amended. \<open>model_exists_in_s3\<close> consults the listing only at MaxKeys 1; a failure of
  the listing is raised again as it is, whatever its class, and never turned into a
  result: the function returns false only when the listing answered without
  \<open>Contents\<close>; and against a store, the result is true exactly when one of the bucket's
  keys starts with the prefix, and the \<open>ClientError\<close> of the store when the bucket does
  not exist.
\<close>

theorem model_exists_in_s3_spec:
  "(list_objects_v2 cx bx px 1 = Inl e \<longrightarrow> model_exists_in_s3 cx bx px = Inl e)
   \<and> (model_exists_in_s3 cn bn pn = Inr False
        \<longrightarrow> (\<exists>r. list_objects_v2 cn bn pn 1 = Inr r \<and> r ''Contents'' = None))
   \<and> (list_objects_v2 c b p 1 = list_objects_v2 c' b p 1
        \<longrightarrow> model_exists_in_s3 c b p = model_exists_in_s3 c' b p)
   \<and> (list_objects_v2 cs = store_list_objects_v2 st \<longrightarrow>
        model_exists_in_s3 cs bs ps =
          (case st bs of None \<Rightarrow> Inl ClientError
           | Some keys \<Rightarrow> Inr (\<exists>k \<in> set keys. startswith k ps)))"
proof -
  have a: "list_objects_v2 cx bx px 1 = Inl e \<longrightarrow> model_exists_in_s3 cx bx px = Inl e"
    by (simp add: model_exists_in_s3_def)
  have n: "model_exists_in_s3 cn bn pn = Inr False
        \<longrightarrow> (\<exists>r. list_objects_v2 cn bn pn 1 = Inr r \<and> r ''Contents'' = None)"
    by (auto simp add: model_exists_in_s3_def split: sum.splits)
  have b: "list_objects_v2 c b p 1 = list_objects_v2 c' b p 1
        \<longrightarrow> model_exists_in_s3 c b p = model_exists_in_s3 c' b p"
    by (simp add: model_exists_in_s3_def)
  have c: "list_objects_v2 cs = store_list_objects_v2 st \<longrightarrow>
        model_exists_in_s3 cs bs ps =
          (case st bs of None \<Rightarrow> Inl ClientError
           | Some keys \<Rightarrow> Inr (\<exists>k \<in> set keys. startswith k ps))"
  proof
    assume eq: "list_objects_v2 cs = store_list_objects_v2 st"
    show "model_exists_in_s3 cs bs ps =
          (case st bs of None \<Rightarrow> Inl ClientError
           | Some keys \<Rightarrow> Inr (\<exists>k \<in> set keys. startswith k ps))"
    proof (cases "st bs")
      case None
      then show ?thesis by (simp add: model_exists_in_s3_def eq store_list_objects_v2_def)
    next
      case (Some keys)
      obtain r where r: "store_list_objects_v2 st bs ps (Suc 0) = Inr r"
        using Some by (simp add: store_list_objects_v2_def Let_def)
      from store_listing_contents [OF r Some] r Some show ?thesis
        by (simp add: model_exists_in_s3_def eq)
    qed
  qed
  show ?thesis using a n b c by blast
qed

theorem model_exists_in_s3_spec_witness:
  "list_objects_v2 (example_client Map.empty (\<lambda>k. False)) ''nonexistent-bucket'' ''models/gpt2/'' 1
      = Inl ClientError
   \<and> model_exists_in_s3 (example_client Map.empty (\<lambda>k. False)) ''nonexistent-bucket''
        ''models/gpt2/'' = Inl ClientError
   \<and> list_objects_v2 (example_client [''test-bucket'' \<mapsto> [''models/gpt2/config.json'']] (\<lambda>k. False))
        = store_list_objects_v2 [''test-bucket'' \<mapsto> [''models/gpt2/config.json'']]
   \<and> model_exists_in_s3
        (example_client [''test-bucket'' \<mapsto> [''models/gpt2/config.json'']] (\<lambda>k. False))
        ''test-bucket'' ''models/gpt2/'' = Inr True
   \<and> model_exists_in_s3
        (example_client [''test-bucket'' \<mapsto> [''models/other-model/config.json'']] (\<lambda>k. False))
        ''test-bucket'' ''models/gpt2/'' = Inr False"
  using model_exists_in_s3_spec
    [where cx = "example_client Map.empty (\<lambda>k. False)" and bx = "''nonexistent-bucket''"
       and px = "''models/gpt2/''" and e = ClientError
       and cn = "example_client [''test-bucket'' \<mapsto> [''models/other-model/config.json'']]
                   (\<lambda>k. False)"
       and bn = "''test-bucket''" and pn = "''models/gpt2/''"
       and c = "example_client [''test-bucket'' \<mapsto> [''models/other-model/config.json'']]
                   (\<lambda>k. False)"
       and b = "''test-bucket''" and p = "''models/gpt2/''"
       and c' = "example_client [''test-bucket'' \<mapsto> [''models/other-model/config.json'']]
                   (\<lambda>k. False)"
       and cs = "example_client [''test-bucket'' \<mapsto> [''models/gpt2/config.json'']] (\<lambda>k. False)"
       and st = "[''test-bucket'' \<mapsto> [''models/gpt2/config.json'']]"
       and bs = "''test-bucket''" and ps = "''models/gpt2/''"]
  by (simp add: example_client_def store_list_objects_v2_def model_exists_in_s3_def
      startswith_def)

section \<open>The fetch\<close>

text \<open>
  C5, as the claim states it, fails: when \<open>snapshot_download\<close> returns a path that exists
  and differs from the requested directory, \<open>download_model_from_hf\<close> returns that path
  and raises nothing.
\<close>

theorem download_path_mismatch_counterexample:
  "download_model_from_hf (\<lambda>repo_id local_dir token. Inr ''/private/tmp/hf_model_x1'')
      (\<lambda>p. True) ''gpt2'' ''/tmp/hf_model_x1'' None = Inr ''/private/tmp/hf_model_x1''
   \<and> ''/private/tmp/hf_model_x1'' \<noteq> ''/tmp/hf_model_x1''"
  by (simp add: download_model_from_hf_def)

text \<open>
  C5, amended. A fetch that returns, returns the path that \<open>snapshot_download\<close> returned,
  and that path exists; a returned path that does not exist is a fatal \<open>RuntimeError\<close>.
  The returned path is not compared with the requested directory.
\<close>

theorem download_returns_snapshot_path:
  "(download_model_from_hf snap ex m d t = Inr p \<longrightarrow> snap m d t = Inr p \<and> ex p)
   \<and> (snap' m' d' t' = Inr p' \<and> \<not> ex' p'
        \<longrightarrow> download_model_from_hf snap' ex' m' d' t' = Inl RuntimeError)"
  by (auto simp add: download_model_from_hf_def split: sum.splits if_splits)

theorem download_returns_snapshot_path_witness:
  "download_model_from_hf (\<lambda>repo_id local_dir token. Inr local_dir) (\<lambda>p. True)
      ''gpt2'' ''/tmp/hf_model_x1'' None = Inr ''/tmp/hf_model_x1''
   \<and> (\<lambda>repo_id local_dir token. Inr local_dir) ''gpt2'' ''/tmp/hf_model_x1'' (None :: string option)
        = (Inr ''/tmp/hf_model_x1'' :: exn + string)
   \<and> \<not> (\<lambda>p. False) ''/tmp/hf_model_x1''
   \<and> download_model_from_hf (\<lambda>repo_id local_dir token. Inr local_dir) (\<lambda>p. False)
      ''gpt2'' ''/tmp/hf_model_x1'' None = Inl RuntimeError"
  using download_returns_snapshot_path
    [of "\<lambda>repo_id local_dir token. Inr local_dir" "\<lambda>p. True" "''gpt2''" "''/tmp/hf_model_x1''"
        None "''/tmp/hf_model_x1''"
        "\<lambda>repo_id local_dir token. Inr local_dir" "''gpt2''" "''/tmp/hf_model_x1''" None
        "''/tmp/hf_model_x1''" "\<lambda>p. False"]
  by (simp add: download_model_from_hf_def)

section \<open>The upload\<close>

lemma collect_results_failure:
  "t \<in> set ts \<Longrightarrow> run t = Inl e \<Longrightarrow>
     \<exists>t' e'. t' \<in> set ts \<and> run t' = Inl e' \<and> collect_results run ts a n = Inl e'"
proof (induction ts arbitrary: a n)
  case Nil
  then show ?case by simp
next
  case (Cons x xs)
  show ?case
  proof (cases "run x")
    case (Inl e0)
    then have "x \<in> set (x # xs) \<and> run x = Inl e0
        \<and> collect_results run (x # xs) a n = Inl e0"
      by simp
    then show ?thesis by blast
  next
    case (Inr sz)
    with Cons.prems have "t \<in> set xs" by auto
    from Cons.IH [OF this Cons.prems(2), of "a + sz" "n + 1"] Inr show ?thesis by auto
  qed
qed

lemma example_tasks:
  "files_to_upload (example_host ''/tmp/hf_model_x1'' example_tree) ''/tmp/hf_model_x1''
      ''models/gpt2/''
     = [(''/tmp/hf_model_x1/c.txt'', ''models/gpt2/c.txt'', ''c.txt''),
        (''/tmp/hf_model_x1/a/b.txt'', ''models/gpt2/a/b.txt'', ''a/b.txt'')]"
  by code_simp

lemma example_normalize: "normalize_prefix ''models/gpt2/'' = ''models/gpt2/''"
  by (simp add: normalize_prefix_def endswith_def)

text \<open>
  C3. Whatever the order in which the uploads complete, if the upload of one of the files
  raises, \<open>upload_directory_to_s3\<close> raises, and what it raises is the error of one of
  its upload tasks: no failure is swallowed and none is replaced by a success.
\<close>

theorem upload_failure_propagates:
  assumes perm: "mset (as_completed h (files_to_upload h d (normalize_prefix p)))
                   = mset (files_to_upload h d (normalize_prefix p))"
    and task: "(l, k, r) \<in> set (files_to_upload h d (normalize_prefix p))"
    and fails: "fst (upload_file_to_s3 c h l b k) = Inl e"
  shows "\<exists>l' k' r' e'. (l', k', r') \<in> set (files_to_upload h d (normalize_prefix p))
           \<and> fst (upload_file_to_s3 c h l' b k') = Inl e'
           \<and> fst (upload_directory_to_s3 c h d b p) = Inl e'"
proof -
  let ?tasks = "files_to_upload h d (normalize_prefix p)"
  let ?run = "\<lambda>t. fst ((\<lambda>(local_file_path, s3_key, relative_path).
                 upload_file_to_s3 c h local_file_path b s3_key) t)"
  have sets: "set (as_completed h ?tasks) = set ?tasks"
    using perm by (rule mset_eq_setD)
  have ne: "?tasks \<noteq> []" using task by auto
  have "(l, k, r) \<in> set (as_completed h ?tasks)" using task sets by simp
  moreover have "?run (l, k, r) = Inl e" using fails by simp
  ultimately obtain t' e' where t': "t' \<in> set (as_completed h ?tasks)"
    and r': "?run t' = Inl e'"
    and c': "collect_results ?run (as_completed h ?tasks) 0 0 = Inl e'"
    using collect_results_failure [of "(l, k, r)" "as_completed h ?tasks" ?run e 0 0] by blast
  obtain l' k' r' where tt: "t' = (l', k', r')" by (cases t') auto
  have res: "fst (upload_directory_to_s3 c h d b p) = Inl e'"
    using ne c' by (simp add: upload_directory_to_s3_def Let_def)
  show ?thesis using t' r' res tt sets by auto
qed

theorem upload_failure_propagates_witness:
  "mset (as_completed (example_host ''/tmp/hf_model_x1'' example_tree)
          (files_to_upload (example_host ''/tmp/hf_model_x1'' example_tree) ''/tmp/hf_model_x1''
             (normalize_prefix ''models/gpt2/'')))
     = mset (files_to_upload (example_host ''/tmp/hf_model_x1'' example_tree) ''/tmp/hf_model_x1''
             (normalize_prefix ''models/gpt2/''))
   \<and> (''/tmp/hf_model_x1/c.txt'', ''models/gpt2/c.txt'', ''c.txt'')
        \<in> set (files_to_upload (example_host ''/tmp/hf_model_x1'' example_tree)
                 ''/tmp/hf_model_x1'' (normalize_prefix ''models/gpt2/''))
   \<and> fst (upload_file_to_s3 (example_client Map.empty (\<lambda>k. k = ''models/gpt2/c.txt''))
        (example_host ''/tmp/hf_model_x1'' example_tree) ''/tmp/hf_model_x1/c.txt''
        ''test-bucket'' ''models/gpt2/c.txt'') = Inl ClientError
   \<and> (\<exists>e'. fst (upload_directory_to_s3 (example_client Map.empty (\<lambda>k. k = ''models/gpt2/c.txt''))
        (example_host ''/tmp/hf_model_x1'' example_tree) ''/tmp/hf_model_x1''
        ''test-bucket'' ''models/gpt2/'') = Inl e')"
proof -
  let ?h = "example_host ''/tmp/hf_model_x1'' example_tree"
  let ?c = "example_client Map.empty (\<lambda>k. k = ''models/gpt2/c.txt'')"
  have perm: "mset (as_completed ?h (files_to_upload ?h ''/tmp/hf_model_x1''
                 (normalize_prefix ''models/gpt2/'')))
     = mset (files_to_upload ?h ''/tmp/hf_model_x1'' (normalize_prefix ''models/gpt2/''))"
    by (simp add: example_host_def)
  have task: "(''/tmp/hf_model_x1/c.txt'', ''models/gpt2/c.txt'', ''c.txt'')
        \<in> set (files_to_upload ?h ''/tmp/hf_model_x1'' (normalize_prefix ''models/gpt2/''))"
    by (simp add: example_normalize example_tasks)
  have fails: "fst (upload_file_to_s3 ?c ?h ''/tmp/hf_model_x1/c.txt''
        ''test-bucket'' ''models/gpt2/c.txt'') = Inl ClientError"
    by (simp add: upload_file_to_s3_def client_upload_file_def example_client_def)
  show ?thesis
    using upload_failure_propagates [OF perm task fails] perm task fails by blast
qed

text \<open>
  C9. When the walk of the directory finds no file in any directory (or there is nothing to
  walk), \<open>upload_directory_to_s3\<close> returns normally with the outcome that there was no
  file to upload, and makes no upload call.
\<close>

theorem upload_empty_tree:
  assumes "case tree_at h d of None \<Rightarrow> True
           | Some t \<Rightarrow> \<forall>(root, dirs, fs) \<in> set (os_walk d t). fs = []"
  shows "upload_directory_to_s3 c h d b p = (Inr No_files_to_upload, [])"
proof -
  have "files_to_upload h d (normalize_prefix p) = []"
    using assms by (auto simp add: files_to_upload_def split: option.splits)
  then show ?thesis by (simp add: upload_directory_to_s3_def)
qed

theorem upload_empty_tree_witness:
  "(case tree_at (example_host ''/tmp/hf_model_x1'' (Dir [] [(''empty'', Dir [] [])]))
           ''/tmp/hf_model_x1'' of
      None \<Rightarrow> True
    | Some t \<Rightarrow> \<forall>(root, dirs, fs) \<in> set (os_walk ''/tmp/hf_model_x1'' t). fs = [])
   \<and> upload_directory_to_s3 (example_client Map.empty (\<lambda>k. True))
        (example_host ''/tmp/hf_model_x1'' (Dir [] [(''empty'', Dir [] [])]))
        ''/tmp/hf_model_x1'' ''test-bucket'' ''models/gpt2/'' = (Inr No_files_to_upload, [])"
proof -
  have h: "case tree_at (example_host ''/tmp/hf_model_x1'' (Dir [] [(''empty'', Dir [] [])]))
           ''/tmp/hf_model_x1'' of
      None \<Rightarrow> True
    | Some t \<Rightarrow> \<forall>(root, dirs, fs) \<in> set (os_walk ''/tmp/hf_model_x1'' t). fs = []"
    by (simp add: example_host_def)
  show ?thesis
    using upload_empty_tree [OF h, of "example_client Map.empty (\<lambda>k. True)" "''test-bucket''"
        "''models/gpt2/''"] h
    by simp
qed

section \<open>The run as a whole\<close>

lemma main_try_rmtree: "main_try (w\<lparr>rmtree_fails := f\<rparr>) = main_try w"
  by (simp add: main_try_def create_s3_client_def Let_def
      cong: sum.case_cong bool.case_cong prod.case_cong)

lemma main_try_created:
  "main_try w = (s, dv, evs) \<Longrightarrow> Created_dir d \<in> set evs \<Longrightarrow> dv = Some d"
  unfolding main_try_def Let_def
  by (auto split: sum.splits bool.splits prod.splits)

lemma main_trace_created:
  assumes "Created_dir d \<in> set (trace (main w))"
  shows "\<exists>s evs. main_try w = (s, Some d, evs)"
proof -
  obtain s dv evs where mt: "main_try w = (s, dv, evs)" by (cases "main_try w") auto
  have "Created_dir d \<in> set evs"
    using assms mt
    by (auto simp add: main_def Let_def split: option.splits if_splits prod.splits sum.splits)
  from main_try_created [OF mt this] mt show ?thesis by auto
qed

lemma example_environment:
  "validate_environment (environ (example_world st kf dr)) = Inr example_config"
proof -
  have "validate_environment example_environ = Inr example_config"
    by code_simp
  then show ?thesis by (simp add: example_world_def)
qed

text \<open>
  C1. In every run in which the configuration is valid, the client is created and the
  existence check returns true, the process exits with status 0 and the run consists of
  the existence check alone: nothing is fetched and no download directory is created.
\<close>

theorem skip_when_model_exists:
  assumes env: "validate_environment (environ w) = Inr cfg"
    and client: "create_s3_client w (s3_endpoint_url cfg) (aws_access_key_id cfg)
                   (aws_secret_access_key cfg) = Inr c"
    and found: "model_exists_in_s3 c (s3_bucket cfg) (full_s3_prefix cfg) = Inr True"
  shows "exit_status (main w) = 0
         \<and> trace (main w) = [Exists_check (s3_bucket cfg) (full_s3_prefix cfg)]
         \<and> (\<forall>m d. Fetch m d \<notin> set (trace (main w)))
         \<and> (\<forall>d. Created_dir d \<notin> set (trace (main w)))"
proof -
  have "main_try w = (Sys_exit 0, None, [Exists_check (s3_bucket cfg) (full_s3_prefix cfg)])"
    using env client found by (simp add: main_try_def Let_def)
  then have "main w = \<lparr> exit_status = 0,
      trace = [Exists_check (s3_bucket cfg) (full_s3_prefix cfg)] \<rparr>"
    by (simp add: main_def handle_def)
  then show ?thesis by simp
qed

theorem skip_when_model_exists_witness:
  "validate_environment
      (environ (example_world [''test-bucket'' \<mapsto> [''models/gpt2/config.json'']] (\<lambda>k. False) True))
     = Inr example_config
   \<and> create_s3_client
        (example_world [''test-bucket'' \<mapsto> [''models/gpt2/config.json'']] (\<lambda>k. False) True)
        (s3_endpoint_url example_config) (aws_access_key_id example_config)
        (aws_secret_access_key example_config)
     = Inr (example_client [''test-bucket'' \<mapsto> [''models/gpt2/config.json'']] (\<lambda>k. False))
   \<and> model_exists_in_s3
        (example_client [''test-bucket'' \<mapsto> [''models/gpt2/config.json'']] (\<lambda>k. False))
        (s3_bucket example_config) (full_s3_prefix example_config) = Inr True
   \<and> exit_status (main
        (example_world [''test-bucket'' \<mapsto> [''models/gpt2/config.json'']] (\<lambda>k. False) True)) = 0
   \<and> trace (main
        (example_world [''test-bucket'' \<mapsto> [''models/gpt2/config.json'']] (\<lambda>k. False) True))
       = [Exists_check ''test-bucket'' ''models/gpt2/'']"
proof -
  let ?st = "[''test-bucket'' \<mapsto> [''models/gpt2/config.json'']]"
  let ?w = "example_world ?st (\<lambda>k. False) True"
  have env: "validate_environment (environ ?w) = Inr example_config"
    by (rule example_environment)
  have client: "create_s3_client ?w (s3_endpoint_url example_config)
      (aws_access_key_id example_config) (aws_secret_access_key example_config)
        = Inr (example_client ?st (\<lambda>k. False))"
    by (simp add: create_s3_client_def example_world_def)
  have found: "model_exists_in_s3 (example_client ?st (\<lambda>k. False))
      (s3_bucket example_config) (full_s3_prefix example_config) = Inr True"
    by (simp add: model_exists_in_s3_def example_client_def store_list_objects_v2_def
        example_config_def full_s3_prefix_def endswith_def startswith_def)
  have pre: "full_s3_prefix example_config = ''models/gpt2/''"
    by (simp add: example_config_def full_s3_prefix_def endswith_def)
  have bk: "s3_bucket example_config = ''test-bucket''"
    by (simp add: example_config_def)
  show ?thesis
    using skip_when_model_exists [OF env client found] env client found pre bk by simp
qed

text \<open>
  C2, as the claim states it, fails: in a run that created the download directory, fetched
  and uploaded, and in which the directory no longer exists when the \<open>finally\<close> block
  asks, \<open>cleanup_local_files\<close> is not called.
\<close>

theorem cleanup_skipped_counterexample:
  "Created_dir ''/tmp/hf_model_x1''
      \<in> set (trace (main (example_world [''test-bucket'' \<mapsto> []] (\<lambda>k. False) False)))
   \<and> Cleanup_call ''/tmp/hf_model_x1''
      \<notin> set (trace (main (example_world [''test-bucket'' \<mapsto> []] (\<lambda>k. False) False)))"
proof -
  have "main (example_world [''test-bucket'' \<mapsto> []] (\<lambda>k. False) False) =
    \<lparr>exit_status = 0, trace = [Exists_check ''test-bucket'' ''models/gpt2/'',
       Created_dir ''/tmp/hf_model_x1'', Fetch ''gpt2'' ''/tmp/hf_model_x1'',
       Upload_call ''/tmp/hf_model_x1/c.txt'' ''test-bucket'' ''models/gpt2/c.txt'',
       Upload_call ''/tmp/hf_model_x1/a/b.txt'' ''test-bucket'' ''models/gpt2/a/b.txt'']\<rparr>"
    by code_simp
  then show ?thesis by simp
qed

text \<open>
  C2, amended. In every run in which a download directory was created and still exists
  when the run ends, the call of the cleanup for that directory is the last thing the run
  does before it exits, whether the run succeeded or failed and whichever phase failed;
  the cleanup returns normally, and whether the removal fails or not does not change the
  exit status.
\<close>

theorem cleanup_when_dir_remains:
  assumes created: "Created_dir d \<in> set (trace (main w))"
    and name: "d \<noteq> []"
    and remains: "exists_at_exit w d"
  shows "last (trace (main w)) = Cleanup_call d
         \<and> Cleanup_call d \<in> set (trace (main w))
         \<and> fst (cleanup_local_files (exists_at_exit w) (rmtree_fails w) d) = Inr ()
         \<and> exit_status (main (w\<lparr>rmtree_fails := f\<rparr>)) = exit_status (main w)"
proof -
  obtain s evs where mt: "main_try w = (s, Some d, evs)"
    using main_trace_created [OF created] by blast
  have cl: "cleanup_local_files (exists_at_exit w) rf d = (Inr (), True)" for rf
    using remains by (simp add: cleanup_local_files_def shutil_rmtree_def)
  have m: "main w = \<lparr> exit_status = handle s, trace = evs @ [Cleanup_call d] \<rparr>"
    using mt name remains cl by (simp add: main_def Let_def)
  have m': "main (w\<lparr>rmtree_fails := f\<rparr>)
      = \<lparr> exit_status = handle s, trace = evs @ [Cleanup_call d] \<rparr>"
    using mt name remains cl [of f] by (simp add: main_def Let_def main_try_rmtree)
  show ?thesis using m m' cl by simp
qed

theorem cleanup_when_dir_remains_witness:
  "Created_dir ''/tmp/hf_model_x1''
      \<in> set (trace (main (example_world [''test-bucket'' \<mapsto> []]
                 (\<lambda>k. k = ''models/gpt2/c.txt'') True)))
   \<and> ''/tmp/hf_model_x1'' \<noteq> []
   \<and> exists_at_exit (example_world [''test-bucket'' \<mapsto> []] (\<lambda>k. k = ''models/gpt2/c.txt'') True)
        ''/tmp/hf_model_x1''
   \<and> exit_status (main (example_world [''test-bucket'' \<mapsto> []]
        (\<lambda>k. k = ''models/gpt2/c.txt'') True)) = 1
   \<and> last (trace (main (example_world [''test-bucket'' \<mapsto> []]
        (\<lambda>k. k = ''models/gpt2/c.txt'') True))) = Cleanup_call ''/tmp/hf_model_x1''
   \<and> exit_status (main ((example_world [''test-bucket'' \<mapsto> []]
        (\<lambda>k. k = ''models/gpt2/c.txt'') True)\<lparr>rmtree_fails := \<lambda>p. True\<rparr>)) = 1"
proof -
  let ?w = "example_world [''test-bucket'' \<mapsto> []] (\<lambda>k. k = ''models/gpt2/c.txt'') True"
  have run: "main ?w =
    \<lparr>exit_status = 1, trace = [Exists_check ''test-bucket'' ''models/gpt2/'',
       Created_dir ''/tmp/hf_model_x1'', Fetch ''gpt2'' ''/tmp/hf_model_x1'',
       Upload_call ''/tmp/hf_model_x1/c.txt'' ''test-bucket'' ''models/gpt2/c.txt'',
       Upload_call ''/tmp/hf_model_x1/a/b.txt'' ''test-bucket'' ''models/gpt2/a/b.txt'',
       Cleanup_call ''/tmp/hf_model_x1'']\<rparr>"
    by code_simp
  have created: "Created_dir ''/tmp/hf_model_x1'' \<in> set (trace (main ?w))"
    by (simp add: run)
  have name: "''/tmp/hf_model_x1'' \<noteq> []" by simp
  have remains: "exists_at_exit ?w ''/tmp/hf_model_x1''"
    by (simp add: example_world_def)
  show ?thesis
    using cleanup_when_dir_remains [OF created name remains, of "\<lambda>p. True"] created remains run
    by simp
qed

section \<open>Paths of the walk and the destination keys\<close>




























end
